theory Spec2Isabelle
  imports Complex_Main
begin

section \<open>JavaScript values\<close>

text \<open>
  The dashboard is TypeScript that runs on untyped spreadsheet rows. A cell is one of the
  primitive values of the language. Numbers are modelled exactly: a finite number is a
  rational and the arithmetic on finite numbers is exact (no IEEE rounding, no overflow,
  no signed zero), and \<open>NaN\<close> is kept because the code tests for it. Infinite numbers are
  outside the model. Strings are ASCII text, one \<open>char\<close> per code unit.
\<close>

datatype jsnum = Fin rat | NaN

datatype jsval = JUndefined | JNull | JBool bool | JNum jsnum | JStr string

text \<open>
  An object is represented by the sequence of property writes that built it: a later
  write to the same key replaces the value and keeps the position of the first write.
  Only own properties are modelled (nothing is inherited from \<open>Object.prototype\<close>).
\<close>

type_synonym js_object = "(string \<times> jsval) list"

definition own_prop :: "(string \<times> 'v) list \<Rightarrow> string \<Rightarrow> 'v option" where
  "own_prop obj k = map_of (rev obj) k"

text \<open>\<^verbatim>\<open>obj[k]\<close>: reading a property that was never written gives \<^verbatim>\<open>undefined\<close>.\<close>

definition obj_get :: "js_object \<Rightarrow> string \<Rightarrow> jsval" where
  "obj_get obj k = (case own_prop obj k of None \<Rightarrow> JUndefined | Some v \<Rightarrow> v)"

subsection \<open>Strings\<close>

definition is_digit :: "char \<Rightarrow> bool" where
  "is_digit c = (48 \<le> (of_char c :: nat) \<and> (of_char c :: nat) \<le> 57)"

definition digit_val :: "char \<Rightarrow> nat" where
  "digit_val c = of_char c - 48"

definition digits_val :: "string \<Rightarrow> nat" where
  "digits_val s = foldl (\<lambda>a c. 10 * a + digit_val c) 0 s"

definition is_space :: "char \<Rightarrow> bool" where
  "is_space c = (c \<in> set [CHR '' '', CHR 0x09, CHR 0x0A, CHR 0x0B, CHR 0x0C, CHR 0x0D])"

definition trimStart :: "string \<Rightarrow> string" where
  "trimStart s = dropWhile is_space s"

definition trim :: "string \<Rightarrow> string" where
  "trim s = rev (dropWhile is_space (rev (dropWhile is_space s)))"

definition lower_char :: "char \<Rightarrow> char" where
  "lower_char c =
     (if 65 \<le> (of_char c :: nat) \<and> (of_char c :: nat) \<le> 90
      then char_of ((of_char c :: nat) + 32) else c)"

definition toLowerCase :: "string \<Rightarrow> string" where
  "toLowerCase s = map lower_char s"

fun startsWith :: "string \<Rightarrow> string \<Rightarrow> bool" where
  "startsWith s [] = True"
| "startsWith [] (c # t) = False"
| "startsWith (a # s) (c # t) = (a = c \<and> startsWith s t)"

text \<open>\<open>includes_str s t\<close> is \<^verbatim>\<open>s.includes(t)\<close>: \<open>t\<close> occurs in \<open>s\<close> as a contiguous substring.\<close>

fun includes_str :: "string \<Rightarrow> string \<Rightarrow> bool" where
  "includes_str [] t = (t = [])"
| "includes_str (a # s) t = (startsWith (a # s) t \<or> includes_str s t)"

text \<open>\<^verbatim>\<open>s.split(",")\<close>: the segments between commas; the empty string gives one empty segment.\<close>

fun split_comma :: "string \<Rightarrow> string list" where
  "split_comma [] = [[]]"
| "split_comma (c # s) =
     (if c = CHR '','' then [] # split_comma s
      else (case split_comma s of p # ps \<Rightarrow> (c # p) # ps | [] \<Rightarrow> [[c]]))"

text \<open>\<^verbatim>\<open>s.replace(/[$,%]/g, "")\<close>\<close>

definition strip_symbols :: "string \<Rightarrow> string" where
  "strip_symbols s = filter (\<lambda>c. c \<notin> set [CHR ''$'', CHR '','', CHR ''%'']) s"

text \<open>\<^verbatim>\<open>s.replace(/,/g, "")\<close>\<close>

definition remove_commas :: "string \<Rightarrow> string" where
  "remove_commas s = filter (\<lambda>c. c \<noteq> CHR '','') s"

subsection \<open>Numbers and strings\<close>

text \<open>Decimal digits of a natural number, as \<^verbatim>\<open>String(n)\<close> prints an index.\<close>

fun nat_digits :: "nat \<Rightarrow> string" where
  "nat_digits n =
     (if n < 10 then [char_of (48 + n)] else nat_digits (n div 10) @ [char_of (48 + n mod 10)])"

declare nat_digits.simps [simp del]

text \<open>
  The scanner for the language's \<open>StrUnsignedDecimalLiteral\<close>: digits with an optional
  fraction, or a fraction alone, then an optional exponent. It returns the value and the
  unread rest. An exponent mark that is not followed by digits is left unread.
\<close>

definition scan_exponent :: "string \<Rightarrow> (int \<times> string)" where
  "scan_exponent s =
     (case s of
        [] \<Rightarrow> (0, s)
      | e # r \<Rightarrow>
          if e = CHR ''e'' \<or> e = CHR ''E'' then
            (let (neg, r1) = (case r of
                                [] \<Rightarrow> (False, r)
                              | sg # r' \<Rightarrow> if sg = CHR ''-'' then (True, r')
                                          else if sg = CHR ''+'' then (False, r')
                                          else (False, r));
                 ds = takeWhile is_digit r1
             in if ds = [] then (0, s)
                else ((if neg then - int (digits_val ds) else int (digits_val ds)),
                      dropWhile is_digit r1))
          else (0, s))"

definition pow10 :: "int \<Rightarrow> rat" where
  "pow10 e = (if 0 \<le> e then 10 ^ nat e else 1 / 10 ^ nat (- e))"

definition scan_unsigned :: "string \<Rightarrow> (rat \<times> string) option" where
  "scan_unsigned s =
     (let ip = takeWhile is_digit s; r1 = dropWhile is_digit s;
          (fp, r2) = (case r1 of
                        [] \<Rightarrow> ([], r1)
                      | d # r \<Rightarrow> if d = CHR ''.''
                                 then (takeWhile is_digit r, dropWhile is_digit r)
                                 else ([], r1))
      in if ip = [] \<and> fp = [] then None
         else (let m = of_nat (digits_val ip) + of_nat (digits_val fp) / 10 ^ length fp;
                   (e, r3) = scan_exponent r2
               in Some (m * pow10 e, r3)))"

text \<open>An optional sign in front of an unsigned literal (\<open>StrDecimalLiteral\<close>).\<close>

definition scan_decimal :: "string \<Rightarrow> (rat \<times> string) option" where
  "scan_decimal s =
     (case s of
        [] \<Rightarrow> None
      | c # r \<Rightarrow>
          if c = CHR ''-'' then map_option (\<lambda>(v, t). (- v, t)) (scan_unsigned r)
          else if c = CHR ''+'' then scan_unsigned r
          else scan_unsigned s)"

text \<open>
  \<^verbatim>\<open>parseFloat(s)\<close>: leading white space is skipped and the longest prefix that is a
  decimal literal is read; no such prefix gives \<open>NaN\<close>. The word \<^verbatim>\<open>Infinity\<close>, which
  the language reads as an infinite number, is not a literal of the model.
\<close>

definition parseFloat :: "string \<Rightarrow> jsnum" where
  "parseFloat s = (case scan_decimal (trimStart s) of None \<Rightarrow> NaN | Some (v, _) \<Rightarrow> Fin v)"

text \<open>
  \<^verbatim>\<open>Number(s)\<close>: the whole trimmed string must be a numeric literal; the empty string is 0.
  Hexadecimal, octal and binary literals are unsigned integers.
\<close>

definition radix_digit :: "char \<Rightarrow> nat option" where
  "radix_digit c =
     (let n = (of_char c :: nat)
      in if 48 \<le> n \<and> n \<le> 57 then Some (n - 48)
         else if 97 \<le> n \<and> n \<le> 102 then Some (n - 87)
         else if 65 \<le> n \<and> n \<le> 70 then Some (n - 55)
         else None)"

definition radix_val :: "nat \<Rightarrow> string \<Rightarrow> nat option" where
  "radix_val b s =
     (if s = [] \<or> list_ex (\<lambda>c. case radix_digit c of None \<Rightarrow> True | Some d \<Rightarrow> b \<le> d) s
      then None
      else Some (foldl (\<lambda>a c. b * a + (case radix_digit c of None \<Rightarrow> 0 | Some d \<Rightarrow> d)) 0 s))"

definition non_decimal_literal :: "string \<Rightarrow> nat option" where
  "non_decimal_literal s =
     (case s of
        z # x # r \<Rightarrow>
          if z \<noteq> CHR ''0'' then None
          else if x = CHR ''x'' \<or> x = CHR ''X'' then radix_val 16 r
          else if x = CHR ''o'' \<or> x = CHR ''O'' then radix_val 8 r
          else if x = CHR ''b'' \<or> x = CHR ''B'' then radix_val 2 r
          else None
      | _ \<Rightarrow> None)"

definition toNumber :: "string \<Rightarrow> jsnum" where
  "toNumber s =
     (let t = trim s
      in if t = [] then Fin 0
         else (case non_decimal_literal t of
                 Some n \<Rightarrow> Fin (of_nat n)
               | None \<Rightarrow>
                   (case scan_decimal t of
                      Some (v, r) \<Rightarrow> if r = [] then Fin v else NaN
                    | None \<Rightarrow> NaN)))"

text \<open>
  \<^verbatim>\<open>String(x)\<close> of a number. The decimal expansion is produced by long division; a finite
  number of the language always has a finite expansion, and \<open>frac_digits\<close> gives \<open>None\<close>
  only for a rational that is no number of the language. The layout follows the language:
  plain notation when the decimal point lies within 21 digits to the right or 6 to the left,
  exponent notation otherwise.
\<close>

fun frac_digits :: "nat \<Rightarrow> nat \<Rightarrow> nat \<Rightarrow> string option" where
  "frac_digits fuel r q =
     (if r = 0 then Some []
      else if fuel = 0 then None
      else map_option ((#) (char_of (48 + 10 * r div q))) (frac_digits (fuel - 1) (10 * r mod q) q))"

declare frac_digits.simps [simp del]

definition is_zero_char :: "char \<Rightarrow> bool" where
  "is_zero_char c = (c = CHR ''0'')"

definition pos_to_string :: "rat \<Rightarrow> string" where
  "pos_to_string r =
     (let (p, q) = quotient_of r; ip = nat p div nat q; rm = nat p mod nat q
      in case frac_digits (nat q) rm (nat q) of
           None \<Rightarrow> nat_digits (nat p) @ ''/'' @ nat_digits (nat q)
         | Some fds \<Rightarrow>
             (let ds = (if ip = 0 then dropWhile is_zero_char fds
                        else rev (dropWhile is_zero_char (rev (nat_digits ip @ fds))));
                  n = (if ip = 0 then - int (length (takeWhile is_zero_char fds))
                       else int (length (nat_digits ip)));
                  k = int (length ds)
              in if 0 < n \<and> n \<le> 21 then
                   (if k \<le> n then ds @ replicate (nat (n - k)) (CHR ''0'')
                    else take (nat n) ds @ ''.'' @ drop (nat n) ds)
                 else if - 6 < n \<and> n \<le> 0 then ''0.'' @ replicate (nat (- n)) (CHR ''0'') @ ds
                 else take 1 ds @ (if k = 1 then [] else ''.'' @ drop 1 ds) @ ''e''
                      @ (if n - 1 < 0 then ''-'' else ''+'') @ nat_digits (nat \<bar>n - 1\<bar>)))"

definition num_to_string :: "jsnum \<Rightarrow> string" where
  "num_to_string x =
     (case x of
        NaN \<Rightarrow> ''NaN''
      | Fin r \<Rightarrow> if r = 0 then ''0''
                 else if r < 0 then ''-'' @ pos_to_string (- r)
                 else pos_to_string r)"

text \<open>\<^verbatim>\<open>String(v)\<close> and \<^verbatim>\<open>v.toString()\<close> on a primitive value.\<close>

fun to_string :: "jsval \<Rightarrow> string" where
  "to_string JUndefined = ''undefined''"
| "to_string JNull = ''null''"
| "to_string (JBool b) = (if b then ''true'' else ''false'')"
| "to_string (JNum x) = num_to_string x"
| "to_string (JStr s) = s"

subsection \<open>Number operations\<close>

definition isNaN :: "jsnum \<Rightarrow> bool" where
  "isNaN x = (x = NaN)"

fun js_add :: "jsnum \<Rightarrow> jsnum \<Rightarrow> jsnum" where
  "js_add (Fin a) (Fin b) = Fin (a + b)"
| "js_add _ _ = NaN"


text \<open>Division is only used with a positive divisor; a zero divisor is outside the model.\<close>

fun js_div :: "jsnum \<Rightarrow> jsnum \<Rightarrow> jsnum" where
  "js_div (Fin a) (Fin b) = (if b = 0 then NaN else Fin (a / b))"
| "js_div _ _ = NaN"

text \<open>Comparisons with \<open>NaN\<close> are false.\<close>

fun js_le :: "jsnum \<Rightarrow> jsnum \<Rightarrow> bool" where
  "js_le (Fin a) (Fin b) = (a \<le> b)"
| "js_le _ _ = False"

fun js_lt :: "jsnum \<Rightarrow> jsnum \<Rightarrow> bool" where
  "js_lt (Fin a) (Fin b) = (a < b)"
| "js_lt _ _ = False"

fun js_abs :: "jsnum \<Rightarrow> jsnum" where
  "js_abs (Fin a) = Fin \<bar>a\<bar>"
| "js_abs NaN = NaN"

text \<open>\<^verbatim>\<open>Math.min\<close> and \<^verbatim>\<open>Math.max\<close> of two numbers; \<open>NaN\<close> is contagious.\<close>

fun js_min :: "jsnum \<Rightarrow> jsnum \<Rightarrow> jsnum" where
  "js_min (Fin a) (Fin b) = Fin (min a b)"
| "js_min _ _ = NaN"

fun js_max :: "jsnum \<Rightarrow> jsnum \<Rightarrow> jsnum" where
  "js_max (Fin a) (Fin b) = Fin (max a b)"
| "js_max _ _ = NaN"

subsection \<open>Truthiness\<close>

definition num_truthy :: "jsnum \<Rightarrow> bool" where
  "num_truthy x = (x \<noteq> NaN \<and> x \<noteq> Fin 0)"


text \<open>\<^verbatim>\<open>x || 0\<close> on a number.\<close>

definition or_zero :: "jsnum \<Rightarrow> jsnum" where
  "or_zero x = (if num_truthy x then x else Fin 0)"

subsection \<open>Property order\<close>

text \<open>
  \<^verbatim>\<open>Object.keys\<close> and \<^verbatim>\<open>Object.entries\<close> list the keys that are array indices first, in
  ascending numeric order, and then the other keys in the order they were first written.
\<close>

definition is_array_index :: "string \<Rightarrow> bool" where
  "is_array_index s =
     (s \<noteq> [] \<and> list_all is_digit s \<and> (s = ''0'' \<or> \<not> startsWith s ''0'')
      \<and> digits_val s < 2 ^ 32 - 1)"

text \<open>The elements of a list without repetition, each at its first position.\<close>

fun first_occurrences :: "'a list \<Rightarrow> 'a list \<Rightarrow> 'a list" where
  "first_occurrences seen [] = []"
| "first_occurrences seen (k # ks) =
     (if k \<in> set seen then first_occurrences seen ks
      else k # first_occurrences (k # seen) ks)"

definition object_keys :: "(string \<times> 'v) list \<Rightarrow> string list" where
  "object_keys obj =
     (let ks = first_occurrences [] (map fst obj)
      in sort_key digits_val (filter is_array_index ks)
         @ filter (\<lambda>k. \<not> is_array_index k) ks)"


section \<open>Field classification: \<^verbatim>\<open>analyzeField\<close>\<close>

datatype field_type = TNumber | TCurrency | TCategory | TText

record FieldInfo =
  name :: string
  type_f :: field_type
  isMetric :: bool
  isDimension :: bool
  uniqueValues :: nat
  sampleValues :: "string list"
  total_f :: "jsnum option"
  average :: "jsnum option"
  min_f :: "jsnum option"
  max_f :: "jsnum option"

text \<open>
  \<^verbatim>\<open>values.filter((v) => v !== null && v !== undefined && v !== "" && v !== "N/A")\<close>
\<close>

definition nonNullValues :: "jsval list \<Rightarrow> jsval list" where
  "nonNullValues values =
     filter (\<lambda>v. v \<noteq> JNull \<and> v \<noteq> JUndefined \<and> v \<noteq> JStr [] \<and> v \<noteq> JStr ''N/A'') values"

text \<open>
  The test and the conversion of the numeric filter:
  \<^verbatim>\<open>numStr = v.toString().replace(/[$,%]/g, "")\<close>,
  \<^verbatim>\<open>!isNaN(Number(numStr)) && numStr.trim() !== ""\<close>, then \<^verbatim>\<open>Number(numStr)\<close>.
\<close>

definition numStr :: "jsval \<Rightarrow> string" where
  "numStr v = strip_symbols (to_string v)"

definition is_numeric :: "jsval \<Rightarrow> bool" where
  "is_numeric v = (\<not> isNaN (toNumber (numStr v)) \<and> trim (numStr v) \<noteq> [])"

definition numericValues :: "jsval list \<Rightarrow> jsnum list" where
  "numericValues nonNull = map (\<lambda>v. toNumber (numStr v)) (filter is_numeric nonNull)"

text \<open>The currency pattern \<^verbatim>\<open>/^\$?\d+(\.\d{2})?$/\<close>.\<close>

definition currency_pattern :: "string \<Rightarrow> bool" where
  "currency_pattern s =
     (let s1 = (case s of [] \<Rightarrow> [] | c # r \<Rightarrow> if c = CHR ''$'' then r else s);
          ds = takeWhile is_digit s1; r1 = dropWhile is_digit s1
      in ds \<noteq> [] \<and>
         (case r1 of
            [] \<Rightarrow> True
          | [p, a, b] \<Rightarrow> p = CHR ''.'' \<and> is_digit a \<and> is_digit b
          | _ \<Rightarrow> False))"

definition is_currency_value :: "jsval \<Rightarrow> bool" where
  "is_currency_value v = (case v of JStr s \<Rightarrow> currency_pattern (remove_commas s) | _ \<Rightarrow> False)"

definition sum_numbers :: "jsnum list \<Rightarrow> jsnum" where
  "sum_numbers xs = foldl js_add (Fin 0) xs"

text \<open>\<^verbatim>\<open>Math.min(...xs)\<close> and \<^verbatim>\<open>Math.max(...xs)\<close>, which are only called on a non-empty list.\<close>

definition math_min :: "jsnum list \<Rightarrow> jsnum" where
  "math_min xs = (case xs of [] \<Rightarrow> NaN | x # r \<Rightarrow> foldl js_min x r)"

definition math_max :: "jsnum list \<Rightarrow> jsnum" where
  "math_max xs = (case xs of [] \<Rightarrow> NaN | x # r \<Rightarrow> foldl js_max x r)"

definition dimension_keyword :: "string \<Rightarrow> bool" where
  "dimension_keyword lowerFieldName =
     (includes_str lowerFieldName ''name'' \<or>
      includes_str lowerFieldName ''mesin'' \<or>
      includes_str lowerFieldName ''category'' \<or>
      includes_str lowerFieldName ''type'' \<or>
      includes_str lowerFieldName ''status'' \<or>
      includes_str lowerFieldName ''department'')"

definition metric_keyword :: "string \<Rightarrow> bool" where
  "metric_keyword lowerFieldName =
     (includes_str lowerFieldName ''total'' \<or>
      includes_str lowerFieldName ''amount'' \<or>
      includes_str lowerFieldName ''jam'' \<or>
      includes_str lowerFieldName ''hour'' \<or>
      includes_str lowerFieldName ''count'' \<or>
      includes_str lowerFieldName ''sum'' \<or>
      includes_str lowerFieldName ''qty'' \<or>
      includes_str lowerFieldName ''quantity'' \<or>
      includes_str lowerFieldName ''price'' \<or>
      includes_str lowerFieldName ''cost'')"

text \<open>
  The statistical pass: the chain currency, number, category, and the default text. It
  gives the type, the two role flags and the statistics (total, average, min, max).
\<close>

type_synonym classification =
  "field_type \<times> bool \<times> bool \<times> jsnum option \<times> jsnum option \<times> jsnum option \<times> jsnum option"

definition with_stats :: "field_type \<Rightarrow> jsnum list \<Rightarrow> classification" where
  "with_stats ty nums =
     (if length nums > 0 then
        (let tot = sum_numbers nums
         in (ty, True, False, Some tot, Some (js_div tot (Fin (of_nat (length nums)))),
             Some (math_min nums), Some (math_max nums)))
      else (ty, True, False, None, None, None, None))"

definition statistical_pass :: "jsval list \<Rightarrow> nat \<Rightarrow> jsnum list \<Rightarrow> classification" where
  "statistical_pass nonNull uniq nums =
     (if list_ex is_currency_value nonNull then with_stats TCurrency nums
      else if (of_nat (length nums) :: rat) \<ge> of_nat (length nonNull) * (8 / 10)
        then with_stats TNumber nums
      else if uniq > 1
            \<and> (of_nat uniq :: rat) \<le> max 20 (of_nat (length nonNull) * (7 / 10))
            \<and> (of_nat (length nums) :: rat) < of_nat (length nonNull) * (5 / 10)
        then (TCategory, False, True, None, None, None, None)
      else (TText, False, False, None, None, None, None))"

text \<open>The two overrides by field name, the dimension keywords first, the metric keywords last.\<close>

definition name_overrides ::
  "string \<Rightarrow> jsnum list \<Rightarrow> field_type \<times> bool \<times> bool \<Rightarrow> field_type \<times> bool \<times> bool" where
  "name_overrides lowerFieldName nums c =
     (let c1 = (if dimension_keyword lowerFieldName then (TCategory, False, True) else c)
      in if metric_keyword lowerFieldName \<and> length nums > 0
         then ((if includes_str lowerFieldName ''price'' \<or> includes_str lowerFieldName ''cost''
                then TCurrency else TNumber), True, False)
         else c1)"

definition analyzeField :: "jsval list \<Rightarrow> string \<Rightarrow> FieldInfo" where
  "analyzeField values fieldName =
     (let nonNull = nonNullValues values;
          uniq = length (first_occurrences [] nonNull);
          samples = map to_string (first_occurrences [] (take 5 nonNull))
      in if length nonNull = 0 then
           \<lparr> name = fieldName, type_f = TText, isMetric = False, isDimension = False,
             uniqueValues = 0, sampleValues = [],
             total_f = None, average = None, min_f = None, max_f = None \<rparr>
         else
           (let nums = numericValues nonNull;
                (ty0, met0, dim0, tot, avg, mn, mx) = statistical_pass nonNull uniq nums;
                (ty, met, dimn) = name_overrides (toLowerCase fieldName) nums (ty0, met0, dim0)
            in \<lparr> name = fieldName, type_f = ty, isMetric = met, isDimension = dimn,
                 uniqueValues = uniq, sampleValues = samples,
                 total_f = tot, average = avg, min_f = mn, max_f = mx \<rparr>))"

section \<open>Aggregation: \<^verbatim>\<open>generateBarChart\<close>\<close>












section \<open>Column lookup and string cleaning\<close>

text \<open>
  \<^verbatim>\<open>row[k] !== undefined && row[k] !== null && String(row[k]).trim() !== ""\<close>
\<close>

definition cell_present :: "js_object \<Rightarrow> string \<Rightarrow> bool" where
  "cell_present row k =
     (obj_get row k \<noteq> JUndefined \<and> obj_get row k \<noteq> JNull \<and> trim (to_string (obj_get row k)) \<noteq> [])"

definition cell_text :: "js_object \<Rightarrow> string \<Rightarrow> string" where
  "cell_text row k = trim (to_string (obj_get row k))"

text \<open>
  \<^verbatim>\<open>key.toLowerCase().includes(name.toLowerCase()) || name.toLowerCase().includes(key.toLowerCase())\<close>
\<close>

definition overlaps :: "string \<Rightarrow> string \<Rightarrow> bool" where
  "overlaps key nm =
     (includes_str (toLowerCase key) (toLowerCase nm) \<or> includes_str (toLowerCase nm) (toLowerCase key))"

definition findColumnValue :: "js_object \<Rightarrow> string list \<Rightarrow> string" where
  "findColumnValue row possibleNames =
     (case find (cell_present row) possibleNames of
        Some nm \<Rightarrow> cell_text row nm
      | None \<Rightarrow>
          (case find (\<lambda>(nm, key). overlaps key nm \<and> cell_present row key)
                     (List.product possibleNames (object_keys row)) of
             Some (nm, key) \<Rightarrow> cell_text row key
           | None \<Rightarrow> []))"

text \<open>\<^verbatim>\<open>value.replace(/,+/g, ",")\<close>\<close>

fun collapse_commas :: "string \<Rightarrow> string" where
  "collapse_commas (c # d # s) =
     (if c = CHR '','' \<and> d = CHR '','' then collapse_commas (d # s)
      else c # collapse_commas (d # s))"
| "collapse_commas s = s"

text \<open>\<^verbatim>\<open>s.replace(/^,|,$/g, "")\<close>\<close>

definition strip_edge_commas :: "string \<Rightarrow> string" where
  "strip_edge_commas s =
     (let s1 = (case s of [] \<Rightarrow> [] | c # r \<Rightarrow> if c = CHR '','' then r else s)
      in if s1 \<noteq> [] \<and> last s1 = CHR '','' then butlast s1 else s1)"

text \<open>
  \<^verbatim>\<open>cleanString(value, maxLength = 50)\<close>. The maximal length is a length, a natural
  number; the callers pass 50 (the default) and 80.
\<close>

definition cleanString :: "string \<Rightarrow> nat \<Rightarrow> string" where
  "cleanString value maxLength =
     (if value = [] then []
      else
        (let cleaned = strip_edge_commas (collapse_commas value)
         in if length cleaned > maxLength \<and> includes_str cleaned '',''
            then (let parts = split_comma cleaned
                  in case find (\<lambda>part. trim part \<noteq> [] \<and> length (trim part) > 3
                                        \<and> length (trim part) < maxLength) parts of
                       Some part \<Rightarrow> trim part
                     | None \<Rightarrow> (case parts of [] \<Rightarrow> [] | p # _ \<Rightarrow> trim p))
            else if length cleaned > maxLength then take maxLength cleaned @ ''...''
            else cleaned))"

section \<open>Tower records: \<^verbatim>\<open>processExcelData\<close>\<close>

record TowerData =
  id_t :: string
  unitName :: string
  latitude :: jsnum
  longitude :: jsnum
  towerType :: string
  voltage :: jsnum
  operationYear :: jsnum
  locationName :: string
  substation :: string
  region :: string
  status :: string

text \<open>\<^verbatim>\<open>s.replace(",", ".")\<close>: only the first comma is replaced.\<close>

fun replace_first_comma :: "string \<Rightarrow> string" where
  "replace_first_comma [] = []"
| "replace_first_comma (c # s) =
     (if c = CHR '','' then CHR ''.'' # s else c # replace_first_comma s)"

text \<open>\<^verbatim>\<open>s.replace(/[^0-9]/g, "")\<close>\<close>

definition digits_only :: "string \<Rightarrow> string" where
  "digits_only s = filter is_digit s"

text \<open>
  \<^verbatim>\<open>parseInt(s)\<close> without a radix: white space, an optional sign, then a hexadecimal
  prefix with hexadecimal digits, or decimal digits; no digit gives \<open>NaN\<close>.
\<close>

definition parseInt_unsigned :: "string \<Rightarrow> int option" where
  "parseInt_unsigned s =
     (let hex = (case s of
                   z # x # r \<Rightarrow>
                     if z = CHR ''0'' \<and> (x = CHR ''x'' \<or> x = CHR ''X'')
                     then Some (takeWhile (\<lambda>c. radix_digit c \<noteq> None) r) else None
                 | _ \<Rightarrow> None)
      in case hex of
           Some hs \<Rightarrow> map_option int (radix_val 16 hs)
         | None \<Rightarrow>
             (let ds = takeWhile is_digit s
              in if ds = [] then None else Some (int (digits_val ds))))"

definition parseInt :: "string \<Rightarrow> jsnum" where
  "parseInt s =
     (let t = trimStart s;
          (neg, u) = (case t of
                        [] \<Rightarrow> (False, t)
                      | c # r \<Rightarrow> if c = CHR ''-'' then (True, r)
                                 else if c = CHR ''+'' then (False, r)
                                 else (False, t))
      in case parseInt_unsigned u of
           None \<Rightarrow> NaN
         | Some n \<Rightarrow> Fin (of_int (if neg then - n else n)))"

text \<open>\<^verbatim>\<open>s || d\<close> on strings: the default replaces the empty string.\<close>

definition or_default :: "string \<Rightarrow> string \<Rightarrow> string" where
  "or_default s d = (if s \<noteq> [] then s else d)"

definition lat_names :: "string list" where
  "lat_names = [''LOCK LAT'', ''Latitude'', ''LAT'', ''Lock Lat'']"

definition lng_names :: "string list" where
  "lng_names = [''LOCK LONG'', ''LOCK LON'', ''Longitude'', ''LONG'', ''LON'', ''Lock Long'']"

definition location_names :: "string list" where
  "location_names = [''Nama Lokasi'', ''NAMA LOKASI'', ''Location'', ''LOKASI'']"

text \<open>The first filter: \<^verbatim>\<open>lat && lng && location\<close>.\<close>

definition hasValidData :: "js_object \<Rightarrow> bool" where
  "hasValidData row =
     (findColumnValue row lat_names \<noteq> [] \<and> findColumnValue row lng_names \<noteq> []
      \<and> findColumnValue row location_names \<noteq> [])"

text \<open>The mapping of a row, at its index among the rows that passed the first filter.\<close>

definition towerData :: "js_object \<Rightarrow> nat \<Rightarrow> TowerData" where
  "towerData row index =
     (let latStr = findColumnValue row lat_names;
          lngStr = findColumnValue row lng_names;
          location = findColumnValue row location_names;
          voltageStr = findColumnValue row [''Tegangan'', ''TEGANGAN'', ''Voltage'', ''KV''];
          towerTypeStr = findColumnValue row [''TIPE'', ''TIPE TOWER'', ''Type'', ''Tower Type''];
          unit = findColumnValue row [''Unit'', ''UNIT'', ''Unit Name'', ''No''];
          substationStr = findColumnValue row [''Gardu Induk'', ''GARDU INDUK'', ''Substation'', ''GI''];
          regionStr = findColumnValue row
                        [''KOTA/KAB'', ''KOTA'', ''Region'', ''Wilayah'', ''KAB'', ''KABUPATEN''];
          statusStr = findColumnValue row [''Status Operasi'', ''STATUS'', ''Status'', ''Operasi''];
          functloc = findColumnValue row [''IdFunctloc'', ''FUNCTLOC'', ''ID'', ''Functloc''];
          lat = or_zero (parseFloat (replace_first_comma latStr));
          lng = or_zero (parseFloat (replace_first_comma lngStr));
          voltageNum = or_zero (parseInt (digits_only voltageStr))
      in \<lparr> id_t = or_default functloc (''tower-'' @ nat_digits index),
           unitName = cleanString (or_default unit ''Unknown Unit'') 50,
           latitude = lat,
           longitude = lng,
           towerType = cleanString (or_default towerTypeStr ''Unknown'') 50,
           voltage = voltageNum,
           operationYear = Fin 0,
           locationName = cleanString (or_default location ''Unknown Location'') 50,
           substation = cleanString (or_default substationStr ''Unknown Substation'') 80,
           region = cleanString (or_default regionStr ''Unknown Region'') 50,
           status = cleanString (or_default statusStr ''Unknown Status'') 50 \<rparr>)"

text \<open>The second filter, on the coordinates of the mapped record.\<close>

definition isValidCoords :: "TowerData \<Rightarrow> bool" where
  "isValidCoords tower =
     (latitude tower \<noteq> Fin 0 \<and>
      longitude tower \<noteq> Fin 0 \<and>
      \<not> isNaN (latitude tower) \<and>
      \<not> isNaN (longitude tower) \<and>
      js_lt (Fin (1 / 10)) (js_abs (latitude tower)) \<and>
      js_lt (Fin (1 / 10)) (js_abs (longitude tower)) \<and>
      js_le (Fin (- 90)) (latitude tower) \<and>
      js_le (latitude tower) (Fin 90) \<and>
      js_le (Fin (- 180)) (longitude tower) \<and>
      js_le (longitude tower) (Fin 180))"

definition processExcelData :: "js_object list \<Rightarrow> TowerData list" where
  "processExcelData rawData =
     filter isValidCoords
       (map (\<lambda>(index, row). towerData row index) (enumerate 0 (filter hasValidData rawData)))"

section \<open>Specification-side notions\<close>




text \<open>
  The cleaner in the words of the specification. A comma that follows a comma is dropped
  (each run of commas becomes one comma), one leading and one trailing comma are stripped;
  a cleaned string longer than \<open>maxLength\<close> that contains a comma gives the first segment
  whose trimmed length lies strictly between 3 and \<open>maxLength\<close>, trimmed, or else the
  first segment trimmed; another cleaned string longer than \<open>maxLength\<close> gives its first
  \<open>maxLength\<close> characters and the ellipsis; any other string is returned as cleaned.
\<close>

fun spec_collapse :: "bool \<Rightarrow> string \<Rightarrow> string" where
  "spec_collapse after_comma [] = []"
| "spec_collapse after_comma (c # s) =
     (if c = CHR '','' \<and> after_comma then spec_collapse True s
      else c # spec_collapse (c = CHR '','') s)"

definition spec_strip :: "string \<Rightarrow> string" where
  "spec_strip s =
     (let s1 = drop (if s \<noteq> [] \<and> hd s = CHR '','' then 1 else 0) s
      in take (length s1 - (if s1 \<noteq> [] \<and> last s1 = CHR '','' then 1 else 0)) s1)"

definition spec_clean :: "string \<Rightarrow> nat \<Rightarrow> string" where
  "spec_clean value maxLength =
     (let cleaned = spec_strip (spec_collapse False value);
          segments = split_comma cleaned;
          qualifying = filter (\<lambda>t. 3 < length t \<and> length t < maxLength) (map trim segments)
      in if maxLength < length cleaned \<and> CHR '','' \<in> set cleaned
         then (if qualifying \<noteq> [] then hd qualifying else trim (hd segments))
         else if maxLength < length cleaned then take maxLength cleaned @ ''...''
         else cleaned)"

text \<open>
  The invariant of a tower record in the words of the specification: both coordinates are
  numbers, the latitude within 90 degrees and the longitude within 180 degrees of zero,
  both further than 0.1 from zero, and neither exactly zero.
\<close>

definition spec_geo_invariant :: "jsnum \<Rightarrow> jsnum \<Rightarrow> bool" where
  "spec_geo_invariant lat lng =
     (case (lat, lng) of
        (Fin a, Fin b) \<Rightarrow>
          - 90 \<le> a \<and> a \<le> 90 \<and> - 180 \<le> b \<and> b \<le> 180 \<and>
          \<bar>a\<bar> > 1 / 10 \<and> \<bar>b\<bar> > 1 / 10 \<and> a \<noteq> 0 \<and> b \<noteq> 0
      | _ \<Rightarrow> False)"

section \<open>Properties of the classifier\<close>

lemma statistical_pass_exclusive:
  "statistical_pass nn u nums = (ty, met, dm, rest) \<Longrightarrow> \<not> (met \<and> dm)"
  by (auto simp: statistical_pass_def with_stats_def Let_def split: if_splits)

lemma name_overrides_exclusive:
  "\<not> (met \<and> dm) \<Longrightarrow> name_overrides l nums (ty, met, dm) = (ty', met', dm')
   \<Longrightarrow> \<not> (met' \<and> dm')"
  by (auto simp: name_overrides_def Let_def split: if_splits)

lemma analyzeField_empty:
  "nonNullValues values = [] \<Longrightarrow>
   analyzeField values fieldName =
     \<lparr> name = fieldName, type_f = TText, isMetric = False, isDimension = False,
       uniqueValues = 0, sampleValues = [],
       total_f = None, average = None, min_f = None, max_f = None \<rparr>"
  by (simp add: analyzeField_def)

lemma analyzeField_roles:
  assumes "nonNullValues values \<noteq> []"
  shows "(type_f (analyzeField values fieldName), isMetric (analyzeField values fieldName),
          isDimension (analyzeField values fieldName)) =
         (case statistical_pass (nonNullValues values)
                 (length (first_occurrences [] (nonNullValues values)))
                 (numericValues (nonNullValues values)) of
            (ty, met, dm, rest) \<Rightarrow>
              name_overrides (toLowerCase fieldName) (numericValues (nonNullValues values))
                (ty, met, dm))"
  using assms by (simp add: analyzeField_def Let_def split: prod.splits)

text \<open>
  C8. For every value sequence and field name the descriptor of \<open>analyzeField\<close> never has
  both \<open>isMetric\<close> and \<open>isDimension\<close> true, on every path (the statistical tests, the
  all-empty column, both name overrides); and both flags can be false.
\<close>

theorem analyzeField_roles_exclusive:
  "(\<forall>values fieldName.
      \<not> (isMetric (analyzeField values fieldName) \<and> isDimension (analyzeField values fieldName)))
   \<and> (\<exists>values fieldName.
      \<not> isMetric (analyzeField values fieldName) \<and> \<not> isDimension (analyzeField values fieldName))"
proof (intro conjI allI)
  fix vs fieldName
  show "\<not> (isMetric (analyzeField vs fieldName) \<and> isDimension (analyzeField vs fieldName))"
  proof (cases "nonNullValues vs = []")
    case True
    then show ?thesis by (simp add: analyzeField_empty)
  next
    case False
    obtain ty met dm rest where sp:
      "statistical_pass (nonNullValues vs)
         (length (first_occurrences [] (nonNullValues vs)))
         (numericValues (nonNullValues vs)) = (ty, met, dm, rest)"
      by (metis prod_cases4)
    obtain ty' met' dm' where ov:
      "name_overrides (toLowerCase fieldName) (numericValues (nonNullValues vs)) (ty, met, dm)
         = (ty', met', dm')"
      by (metis prod_cases3)
    from analyzeField_roles[OF False, of fieldName] sp ov
    have "isMetric (analyzeField vs fieldName) = met'"
      and "isDimension (analyzeField vs fieldName) = dm'" by simp_all
    moreover have "\<not> (met' \<and> dm')"
      using name_overrides_exclusive[OF statistical_pass_exclusive[OF sp] ov] .
    ultimately show ?thesis by simp
  qed
next
  have "nonNullValues [] = []" by (simp add: nonNullValues_def)
  then have "\<not> isMetric (analyzeField [] []) \<and> \<not> isDimension (analyzeField [] [])"
    by (simp add: analyzeField_empty)
  then show "\<exists>values fieldName.
      \<not> isMetric (analyzeField values fieldName) \<and> \<not> isDimension (analyzeField values fieldName)"
    by blast
qed

theorem analyzeField_roles_exclusive_witness:
  "isMetric (analyzeField [JNum (Fin 3), JStr ''a''] ''Status Total'')
   \<and> \<not> isDimension (analyzeField [JNum (Fin 3), JStr ''a''] ''Status Total'')"
proof -
  have m: "isMetric (analyzeField [JNum (Fin 3), JStr ''a''] ''Status Total'')"
    by code_simp
  from analyzeField_roles_exclusive
  have "\<not> (isMetric (analyzeField [JNum (Fin 3), JStr ''a''] ''Status Total'')
          \<and> isDimension (analyzeField [JNum (Fin 3), JStr ''a''] ''Status Total''))"
    by blast
  with m show ?thesis by simp
qed

section \<open>Properties of the aggregator\<close>

















































section \<open>Name overrides and the currency example\<close>

lemma dimension_keyword_list:
  "dimension_keyword l \<longleftrightarrow>
     (\<exists>k\<in>set [''name'', ''mesin'', ''category'', ''type'', ''status'', ''department''].
        includes_str l k)"
  by (simp add: dimension_keyword_def)

lemma metric_keyword_list:
  "metric_keyword l \<longleftrightarrow>
     (\<exists>k\<in>set [''total'', ''amount'', ''jam'', ''hour'', ''count'', ''sum'', ''qty'',
               ''quantity'', ''price'', ''cost'']. includes_str l k)"
  by (simp add: metric_keyword_def)

lemma numericValues_Nil: "numericValues [] = []"
  by (simp add: numericValues_def)

text \<open>
  C5. When the lowercased field name contains a dimension keyword (name, mesin, category,
  type, status, department) and a metric keyword (total, amount, jam, hour, count, sum,
  qty, quantity, price, cost) and the column has at least one numeric value, the metric
  override, applied last, wins: the field is a metric, not a dimension, of type currency
  when the name contains price or cost and of type number otherwise.
\<close>

theorem analyzeField_metric_override_wins:
  "\<forall>vals fieldName.
     (\<exists>k\<in>set [''name'', ''mesin'', ''category'', ''type'', ''status'', ''department''].
        includes_str (toLowerCase fieldName) k) \<and>
     (\<exists>k\<in>set [''total'', ''amount'', ''jam'', ''hour'', ''count'', ''sum'', ''qty'',
               ''quantity'', ''price'', ''cost'']. includes_str (toLowerCase fieldName) k) \<and>
     numericValues (nonNullValues vals) \<noteq> [] \<longrightarrow>
     isMetric (analyzeField vals fieldName) \<and>
     \<not> isDimension (analyzeField vals fieldName) \<and>
     type_f (analyzeField vals fieldName) =
       (if includes_str (toLowerCase fieldName) ''price''
           \<or> includes_str (toLowerCase fieldName) ''cost''
        then TCurrency else TNumber)"
proof (intro allI impI)
  fix vs :: "jsval list" and fieldName :: string
  assume h: "(\<exists>k\<in>set [''name'', ''mesin'', ''category'', ''type'', ''status'', ''department''].
        includes_str (toLowerCase fieldName) k) \<and>
     (\<exists>k\<in>set [''total'', ''amount'', ''jam'', ''hour'', ''count'', ''sum'', ''qty'',
               ''quantity'', ''price'', ''cost'']. includes_str (toLowerCase fieldName) k) \<and>
     numericValues (nonNullValues vs) \<noteq> []"
  then have mk: "metric_keyword (toLowerCase fieldName)"
    unfolding metric_keyword_list by blast
  from h have nums: "numericValues (nonNullValues vs) \<noteq> []" by blast
  then have nn: "nonNullValues vs \<noteq> []" using numericValues_Nil by auto
  obtain ty met dm rest where sp:
    "statistical_pass (nonNullValues vs)
       (length (first_occurrences [] (nonNullValues vs)))
       (numericValues (nonNullValues vs)) = (ty, met, dm, rest)"
    by (metis prod_cases4)
  have "name_overrides (toLowerCase fieldName) (numericValues (nonNullValues vs)) (ty, met, dm)
        = ((if includes_str (toLowerCase fieldName) ''price''
               \<or> includes_str (toLowerCase fieldName) ''cost''
            then TCurrency else TNumber), True, False)"
    using mk nums by (simp add: name_overrides_def)
  with analyzeField_roles[OF nn, of fieldName] sp
  show "isMetric (analyzeField vs fieldName) \<and>
     \<not> isDimension (analyzeField vs fieldName) \<and>
     type_f (analyzeField vs fieldName) =
       (if includes_str (toLowerCase fieldName) ''price''
           \<or> includes_str (toLowerCase fieldName) ''cost''
        then TCurrency else TNumber)"
    by simp
qed

theorem analyzeField_metric_override_wins_witness:
  "(\<exists>k\<in>set [''name'', ''mesin'', ''category'', ''type'', ''status'', ''department''].
        includes_str (toLowerCase ''Status Total'') k) \<and>
   (\<exists>k\<in>set [''total'', ''amount'', ''jam'', ''hour'', ''count'', ''sum'', ''qty'',
               ''quantity'', ''price'', ''cost'']. includes_str (toLowerCase ''Status Total'') k) \<and>
   numericValues (nonNullValues [JNum (Fin 3), JStr ''a'']) \<noteq> [] \<and>
   isMetric (analyzeField [JNum (Fin 3), JStr ''a''] ''Status Total'') \<and>
   \<not> isDimension (analyzeField [JNum (Fin 3), JStr ''a''] ''Status Total'') \<and>
   type_f (analyzeField [JNum (Fin 3), JStr ''a''] ''Status Total'') = TNumber"
proof -
  have h1: "\<exists>k\<in>set [''name'', ''mesin'', ''category'', ''type'', ''status'', ''department''].
        includes_str (toLowerCase ''Status Total'') k"
    by code_simp
  have h2: "\<exists>k\<in>set [''total'', ''amount'', ''jam'', ''hour'', ''count'', ''sum'', ''qty'',
               ''quantity'', ''price'', ''cost'']. includes_str (toLowerCase ''Status Total'') k"
    by code_simp
  have h3: "numericValues (nonNullValues [JNum (Fin 3), JStr ''a'']) \<noteq> []"
    by code_simp
  have np: "\<not> (includes_str (toLowerCase ''Status Total'') ''price''
           \<or> includes_str (toLowerCase ''Status Total'') ''cost'')"
    by code_simp
  from analyzeField_metric_override_wins[rule_format,
      where fieldName = "''Status Total''" and vals = "[JNum (Fin 3), JStr ''a'']"] h1 h2 h3 np
  have "isMetric (analyzeField [JNum (Fin 3), JStr ''a''] ''Status Total'') \<and>
   \<not> isDimension (analyzeField [JNum (Fin 3), JStr ''a''] ''Status Total'') \<and>
   type_f (analyzeField [JNum (Fin 3), JStr ''a''] ''Status Total'') = TNumber"
    by simp
  with h1 h2 h3 show ?thesis by blast
qed

lemma currency_column_stats:
  "statistical_pass [JStr ''$100.00'', JStr ''$250.50'', JStr ''$75.25'']
     (length (first_occurrences [] [JStr ''$100.00'', JStr ''$250.50'', JStr ''$75.25'']))
     (numericValues [JStr ''$100.00'', JStr ''$250.50'', JStr ''$75.25''])
   = (TCurrency, True, False, Some (Fin 425.75), Some (Fin (425.75 / 3)),
      Some (Fin 75.25), Some (Fin 250.50))"
  by code_simp

lemma currency_column_nonNull:
  "nonNullValues [JStr ''$100.00'', JStr ''$250.50'', JStr ''$75.25'']
     = [JStr ''$100.00'', JStr ''$250.50'', JStr ''$75.25'']"
  by code_simp

text \<open>
  C3. Under a field name without any override keyword, the column \<open>$100.00\<close>, \<open>$250.50\<close>,
  \<open>$75.25\<close> has a value that matches the currency pattern and is classified as a
  currency metric with total 425.75 and average 425.75 / 3, which is 141.92 to two places.
\<close>

theorem analyzeField_currency_column:
  "\<forall>fieldName.
     (\<forall>k\<in>set [''name'', ''mesin'', ''category'', ''type'', ''status'', ''department'',
               ''total'', ''amount'', ''jam'', ''hour'', ''count'', ''sum'', ''qty'',
               ''quantity'', ''price'', ''cost'']. \<not> includes_str (toLowerCase fieldName) k) \<longrightarrow>
     list_ex is_currency_value [JStr ''$100.00'', JStr ''$250.50'', JStr ''$75.25''] \<and>
     type_f (analyzeField [JStr ''$100.00'', JStr ''$250.50'', JStr ''$75.25''] fieldName) = TCurrency \<and>
     isMetric (analyzeField [JStr ''$100.00'', JStr ''$250.50'', JStr ''$75.25''] fieldName) \<and>
     \<not> isDimension (analyzeField [JStr ''$100.00'', JStr ''$250.50'', JStr ''$75.25''] fieldName) \<and>
     total_f (analyzeField [JStr ''$100.00'', JStr ''$250.50'', JStr ''$75.25''] fieldName)
       = Some (Fin 425.75) \<and>
     average (analyzeField [JStr ''$100.00'', JStr ''$250.50'', JStr ''$75.25''] fieldName)
       = Some (Fin (425.75 / 3)) \<and>
     \<bar>425.75 / 3 - 141.92 :: rat\<bar> < 0.005"
proof (intro allI impI)
  fix fieldName :: string
  let ?vs = "[JStr ''$100.00'', JStr ''$250.50'', JStr ''$75.25'']"
  assume h: "\<forall>k\<in>set [''name'', ''mesin'', ''category'', ''type'', ''status'', ''department'',
               ''total'', ''amount'', ''jam'', ''hour'', ''count'', ''sum'', ''qty'',
               ''quantity'', ''price'', ''cost'']. \<not> includes_str (toLowerCase fieldName) k"
  then have nd: "\<not> dimension_keyword (toLowerCase fieldName)"
    and nm: "\<not> metric_keyword (toLowerCase fieldName)"
    by (simp_all add: dimension_keyword_def metric_keyword_def)
  have cur: "list_ex is_currency_value ?vs" by code_simp
  have ov: "\<And>c. name_overrides (toLowerCase fieldName) (numericValues ?vs) c = c"
    using nd nm by (simp add: name_overrides_def)
  have r: "analyzeField ?vs fieldName =
      \<lparr> name = fieldName, type_f = TCurrency, isMetric = True, isDimension = False,
        uniqueValues = length (first_occurrences [] ?vs),
        sampleValues = map to_string (first_occurrences [] (take 5 ?vs)),
        total_f = Some (Fin 425.75), average = Some (Fin (425.75 / 3)),
        min_f = Some (Fin 75.25), max_f = Some (Fin 250.50) \<rparr>"
    unfolding analyzeField_def currency_column_nonNull Let_def currency_column_stats ov
    by simp
  have approx: "\<bar>425.75 / 3 - 141.92 :: rat\<bar> < 0.005" by simp
  from cur approx show "list_ex is_currency_value ?vs \<and>
     type_f (analyzeField ?vs fieldName) = TCurrency \<and>
     isMetric (analyzeField ?vs fieldName) \<and>
     \<not> isDimension (analyzeField ?vs fieldName) \<and>
     total_f (analyzeField ?vs fieldName) = Some (Fin 425.75) \<and>
     average (analyzeField ?vs fieldName) = Some (Fin (425.75 / 3)) \<and>
     \<bar>425.75 / 3 - 141.92 :: rat\<bar> < 0.005"
    unfolding r by simp
qed

theorem analyzeField_currency_column_witness:
  "list_all (\<lambda>k. \<not> includes_str (toLowerCase ''Revenue'') k)
     [''name'', ''mesin'', ''category'', ''type'', ''status'', ''department'',
      ''total'', ''amount'', ''jam'', ''hour'', ''count'', ''sum'', ''qty'',
      ''quantity'', ''price'', ''cost''] \<and>
   type_f (analyzeField [JStr ''$100.00'', JStr ''$250.50'', JStr ''$75.25''] ''Revenue'') = TCurrency \<and>
   total_f (analyzeField [JStr ''$100.00'', JStr ''$250.50'', JStr ''$75.25''] ''Revenue'')
       = Some (Fin 425.75)"
proof -
  have l: "list_all (\<lambda>k. \<not> includes_str (toLowerCase ''Revenue'') k)
     [''name'', ''mesin'', ''category'', ''type'', ''status'', ''department'',
      ''total'', ''amount'', ''jam'', ''hour'', ''count'', ''sum'', ''qty'',
      ''quantity'', ''price'', ''cost'']"
    by code_simp
  then have h: "\<forall>k\<in>set [''name'', ''mesin'', ''category'', ''type'', ''status'', ''department'',
               ''total'', ''amount'', ''jam'', ''hour'', ''count'', ''sum'', ''qty'',
               ''quantity'', ''price'', ''cost'']. \<not> includes_str (toLowerCase ''Revenue'') k"
    unfolding list_all_iff .
  from analyzeField_currency_column[THEN spec, THEN mp, OF h] l show ?thesis by blast
qed

section \<open>Values that do not parse\<close>











section \<open>Properties of the column lookup\<close>









section \<open>Properties of the cleaner\<close>

lemma collapse_commas_spec: "collapse_commas (c # s) = c # spec_collapse (c = CHR '','') s"
proof (induction s arbitrary: c)
  case Nil
  then show ?case by simp
next
  case (Cons d s)
  show ?case using Cons[of d] by auto
qed

lemma collapse_commas_eq: "collapse_commas s = spec_collapse False s"
proof (cases s)
  case Nil
  then show ?thesis by simp
next
  case (Cons c r)
  then show ?thesis by (simp add: collapse_commas_spec)
qed

lemma strip_edge_commas_eq: "strip_edge_commas s = spec_strip s"
proof (cases s)
  case Nil
  then show ?thesis by (simp add: strip_edge_commas_def spec_strip_def)
next
  case (Cons c r)
  then show ?thesis
    by (auto simp: strip_edge_commas_def spec_strip_def Let_def butlast_conv_take)
qed

lemma startsWith_comma: "startsWith s '','' \<longleftrightarrow> (s \<noteq> [] \<and> hd s = CHR '','')"
  by (cases s) auto

lemma includes_comma: "includes_str s '','' \<longleftrightarrow> CHR '','' \<in> set s"
  by (induction s) (auto simp: startsWith_comma)

lemma find_filter_trim:
  "(case find (\<lambda>part. P (trim part)) parts of Some part \<Rightarrow> trim part | None \<Rightarrow> d) =
   (if filter P (map trim parts) \<noteq> [] then hd (filter P (map trim parts)) else d)"
  by (induction parts) auto

lemma split_comma_nonempty: "split_comma s \<noteq> []"
  by (induction s) (auto split: list.splits)

text \<open>
  C7. For every string and every maximal length, \<open>cleanString\<close> computes what the
  specification says: runs of commas collapsed, one leading and one trailing comma
  stripped; then the first qualifying segment (trimmed length strictly between 3 and the
  maximal length), returned trimmed, or the first segment trimmed, when the cleaned string
  is too long and has a comma; the truncation with the ellipsis when it is only too long;
  the cleaned string otherwise. In particular \<open>clean("a,,b,,", 50) = "a,b"\<close>.
\<close>

theorem cleanString_refines_spec:
  "(\<forall>v maxLength. cleanString v maxLength = spec_clean v maxLength)
   \<and> cleanString ''a,,b,,'' 50 = ''a,b''"
proof (intro conjI allI)
  fix v :: string and maxLength :: nat
  show "cleanString v maxLength = spec_clean v maxLength"
  proof (cases "v = []")
    case True
    then show ?thesis
      by (simp add: cleanString_def spec_clean_def spec_strip_def)
  next
    case False
    let ?cleaned = "spec_strip (spec_collapse False v)"
    let ?parts = "split_comma ?cleaned"
    let ?Q = "\<lambda>t. 3 < length t \<and> length t < maxLength"
    have hd: "(case ?parts of [] \<Rightarrow> [] | p # _ \<Rightarrow> trim p) = trim (hd ?parts)"
      using split_comma_nonempty[of ?cleaned] by (cases ?parts) auto
    have fnd: "(case find (\<lambda>part. 3 < length (trim part) \<and> length (trim part) < maxLength) ?parts of
                  None \<Rightarrow> (case ?parts of [] \<Rightarrow> [] | p # _ \<Rightarrow> trim p)
                | Some part \<Rightarrow> trim part)
               = (if filter ?Q (map trim ?parts) \<noteq> [] then hd (filter ?Q (map trim ?parts))
                  else trim (hd ?parts))"
      unfolding hd by (rule find_filter_trim[where P = ?Q and parts = ?parts and d = "trim (hd ?parts)"])
    have q: "(\<lambda>part. trim part \<noteq> [] \<and> 3 < length (trim part) \<and> length (trim part) < maxLength)
           = (\<lambda>part. 3 < length (trim part) \<and> length (trim part) < maxLength)"
      by (rule ext) auto
    have "cleanString v maxLength =
          (if maxLength < length ?cleaned \<and> CHR '','' \<in> set ?cleaned
           then (case find (\<lambda>part. 3 < length (trim part) \<and> length (trim part) < maxLength) ?parts of
                  None \<Rightarrow> (case ?parts of [] \<Rightarrow> [] | p # _ \<Rightarrow> trim p)
                | Some part \<Rightarrow> trim part)
           else if maxLength < length ?cleaned then take maxLength ?cleaned @ ''...''
           else ?cleaned)"
      using False
      by (simp add: cleanString_def Let_def collapse_commas_eq strip_edge_commas_eq includes_comma q)
    also have "\<dots> = spec_clean v maxLength"
      unfolding fnd by (simp add: spec_clean_def Let_def)
    finally show ?thesis .
  qed
next
  show "cleanString ''a,,b,,'' 50 = ''a,b''" by code_simp
qed

theorem cleanString_refines_spec_witness:
  "cleanString ''averyverylongsubstationnamethatexceedsfifty characters,ok'' 50
     = ''averyverylongsubstationnamethatexceedsfifty characters''
   \<and> spec_clean ''abcdefghijkl'' 5 = ''abcde...''
   \<and> cleanString ''ab ,  abcdefgh , abcd ,'' 6 = ''abcd''"
proof -
  have a: "spec_clean ''averyverylongsubstationnamethatexceedsfifty characters,ok'' 50
     = ''averyverylongsubstationnamethatexceedsfifty characters''" by code_simp
  have b: "cleanString ''abcdefghijkl'' 5 = ''abcde...''" by code_simp
  have c: "spec_clean ''ab ,  abcdefgh , abcd ,'' 6 = ''abcd''" by code_simp
  from cleanString_refines_spec a b c show ?thesis by simp
qed

section \<open>Properties of the tower records\<close>

lemma isValidCoords_spec:
  "isValidCoords t \<longleftrightarrow> spec_geo_invariant (latitude t) (longitude t)"
  by (cases "latitude t"; cases "longitude t")
     (auto simp: isValidCoords_def spec_geo_invariant_def isNaN_def)

lemma towerData_coords:
  "latitude (towerData row i) = or_zero (parseFloat (replace_first_comma (findColumnValue row lat_names)))"
  "longitude (towerData row i) = or_zero (parseFloat (replace_first_comma (findColumnValue row lng_names)))"
  by (simp_all add: towerData_def Let_def)

lemma isValidCoords_index: "isValidCoords (towerData row i) = isValidCoords (towerData row 0)"
  by (simp add: isValidCoords_def towerData_coords)

lemma length_filter_enumerate:
  "length (filter isValidCoords (map (\<lambda>(index, row). towerData row index) (enumerate n rs)))
   = length (filter (\<lambda>row. isValidCoords (towerData row 0)) rs)"
proof (induction rs arbitrary: n)
  case Nil
  then show ?case by simp
next
  case (Cons r rs)
  then show ?case using isValidCoords_index[of r n] by simp
qed

lemma length_processExcelData:
  "length (processExcelData rawData)
   = length (filter (\<lambda>row. hasValidData row \<and> isValidCoords (towerData row 0)) rawData)"
proof -
  have "filter (\<lambda>row. isValidCoords (towerData row 0)) (filter hasValidData rawData)
        = filter (\<lambda>row. hasValidData row \<and> isValidCoords (towerData row 0)) rawData"
    by (simp add: conj_commute)
  then show ?thesis
    by (simp only: processExcelData_def length_filter_enumerate)
qed

lemma zero_latitude_rejected:
  "findColumnValue row lat_names = ''0'' \<Longrightarrow> \<not> isValidCoords (towerData row i)"
proof -
  assume z: "findColumnValue row lat_names = ''0''"
  have "or_zero (parseFloat (replace_first_comma ''0'')) = Fin 0" by code_simp
  then have "latitude (towerData row i) = Fin 0" by (simp add: towerData_coords z)
  then show ?thesis by (simp add: isValidCoords_def)
qed

text \<open>
  C4. Every record that \<open>processExcelData\<close> returns satisfies the invariant of a tower
  record: latitude within [-90, 90], longitude within [-180, 180], both further than 0.1
  from zero, neither exactly 0 nor \<open>NaN\<close>. A row whose parsed coordinates violate the
  invariant gives no record: alone it gives the empty list, and among other rows the
  output is as long as without it. In particular a row whose latitude resolves to \<open>0\<close> and
  whose longitude resolves to \<open>107.5\<close> gives no record whatever its other fields hold, as
  the row of the example with every other field valid.
\<close>

theorem processExcelData_geo_invariant:
  "(\<forall>rawData. \<forall>t\<in>set (processExcelData rawData).
      spec_geo_invariant (latitude t) (longitude t) \<and>
      latitude t \<noteq> Fin 0 \<and> longitude t \<noteq> Fin 0 \<and> latitude t \<noteq> NaN \<and> longitude t \<noteq> NaN)
   \<and> (\<forall>xs row ys.
        \<not> spec_geo_invariant
            (or_zero (parseFloat (replace_first_comma (findColumnValue row lat_names))))
            (or_zero (parseFloat (replace_first_comma (findColumnValue row lng_names)))) \<longrightarrow>
        processExcelData [row] = [] \<and>
        length (processExcelData (xs @ row # ys)) = length (processExcelData (xs @ ys)))
   \<and> (\<forall>xs row ys.
        findColumnValue row lat_names = ''0'' \<and> findColumnValue row lng_names = ''107.5'' \<longrightarrow>
        processExcelData [row] = [] \<and>
        length (processExcelData (xs @ row # ys)) = length (processExcelData (xs @ ys)))
   \<and> processExcelData
        [[(''Latitude'', JStr ''0''), (''Longitude'', JStr ''107.5''),
          (''Nama Lokasi'', JStr ''Menara 1''), (''Tegangan'', JStr ''150 kV''),
          (''TIPE'', JStr ''Suspension''), (''Unit'', JStr ''U1''), (''Gardu Induk'', JStr ''GI A''),
          (''KOTA/KAB'', JStr ''Bandung''), (''Status Operasi'', JStr ''Operasi''),
          (''IdFunctloc'', JStr ''F-1'')]] = []"
proof (intro conjI allI ballI impI)
  fix rawData t
  assume "t \<in> set (processExcelData rawData)"
  then have v: "isValidCoords t" by (simp add: processExcelData_def)
  then show "spec_geo_invariant (latitude t) (longitude t)" by (simp add: isValidCoords_spec)
  from v show "latitude t \<noteq> Fin 0" "longitude t \<noteq> Fin 0" "latitude t \<noteq> NaN" "longitude t \<noteq> NaN"
    by (simp_all add: isValidCoords_def isNaN_def)
next
  fix xs ys :: "js_object list" and row :: js_object
  assume "\<not> spec_geo_invariant
            (or_zero (parseFloat (replace_first_comma (findColumnValue row lat_names))))
            (or_zero (parseFloat (replace_first_comma (findColumnValue row lng_names))))"
  then have inv: "\<And>i. \<not> isValidCoords (towerData row i)"
    by (simp add: isValidCoords_spec towerData_coords)
  have "length (processExcelData [row]) = 0"
    unfolding length_processExcelData using inv by simp
  then show "processExcelData [row] = []" by simp
  show "length (processExcelData (xs @ row # ys)) = length (processExcelData (xs @ ys))"
    unfolding length_processExcelData using inv by simp
next
  fix xs ys :: "js_object list" and row :: js_object
  assume "findColumnValue row lat_names = ''0'' \<and> findColumnValue row lng_names = ''107.5''"
  then have inv: "\<And>i. \<not> isValidCoords (towerData row i)"
    using zero_latitude_rejected by blast
  have "length (processExcelData [row]) = 0"
    unfolding length_processExcelData using inv by simp
  then show "processExcelData [row] = []" by simp
  show "length (processExcelData (xs @ row # ys)) = length (processExcelData (xs @ ys))"
    unfolding length_processExcelData using inv by simp
next
  let ?row = "[(''Latitude'', JStr ''0''), (''Longitude'', JStr ''107.5''),
          (''Nama Lokasi'', JStr ''Menara 1''), (''Tegangan'', JStr ''150 kV''),
          (''TIPE'', JStr ''Suspension''), (''Unit'', JStr ''U1''), (''Gardu Induk'', JStr ''GI A''),
          (''KOTA/KAB'', JStr ''Bandung''), (''Status Operasi'', JStr ''Operasi''),
          (''IdFunctloc'', JStr ''F-1'')]"
  have "findColumnValue ?row lat_names = ''0''" by code_simp
  then have inv: "\<And>i. \<not> isValidCoords (towerData ?row i)"
    by (rule zero_latitude_rejected)
  have "length (processExcelData [?row]) = 0"
    unfolding length_processExcelData using inv by simp
  then show "processExcelData [?row] = []" by simp
qed

theorem processExcelData_geo_invariant_witness:
  "findColumnValue [(''Latitude'', JStr ''0''), (''Longitude'', JStr ''107.5''), (''Nama Lokasi'', JStr ''X'')]
      lat_names = ''0''
   \<and> findColumnValue [(''Latitude'', JStr ''0''), (''Longitude'', JStr ''107.5''), (''Nama Lokasi'', JStr ''X'')]
      lng_names = ''107.5''
   \<and> processExcelData
        [[(''Latitude'', JStr ''0''), (''Longitude'', JStr ''107.5''), (''Nama Lokasi'', JStr ''X'')]] = []
   \<and> map (\<lambda>t. (latitude t, longitude t))
        (processExcelData
          [[(''Latitude'', JStr ''-6,25''), (''Longitude'', JStr ''107.5''), (''Nama Lokasi'', JStr ''Y'')]])
       = [(Fin (- 6.25), Fin 107.5)]
   \<and> spec_geo_invariant (Fin (- 6.25)) (Fin 107.5)"
proof -
  let ?row = "[(''Latitude'', JStr ''0''), (''Longitude'', JStr ''107.5''), (''Nama Lokasi'', JStr ''X'')]"
  let ?ok = "[(''Latitude'', JStr ''-6,25''), (''Longitude'', JStr ''107.5''), (''Nama Lokasi'', JStr ''Y'')]"
  have a: "findColumnValue ?row lat_names = ''0''" by code_simp
  have b: "findColumnValue ?row lng_names = ''107.5''" by code_simp
  note inv = processExcelData_geo_invariant
  from inv[THEN conjunct2, THEN conjunct2, THEN conjunct1, rule_format, of ?row "[]" "[]"] a b
  have c: "processExcelData [?row] = []" by blast
  have hv: "hasValidData ?ok" by code_simp
  have lt: "latitude (towerData ?ok 0) = Fin (- 6.25)"
    unfolding towerData_coords by code_simp
  have lg: "longitude (towerData ?ok 0) = Fin 107.5"
    unfolding towerData_coords by code_simp
  have "isValidCoords (towerData ?ok 0)"
    by (simp add: isValidCoords_def lt lg isNaN_def)
  with hv have pe: "processExcelData [?ok] = [towerData ?ok 0]"
    by (simp add: processExcelData_def enumerate_simps)
  have d: "map (\<lambda>t. (latitude t, longitude t)) (processExcelData [?ok])
       = [(Fin (- 6.25), Fin 107.5)]"
    by (simp add: pe lt lg)
  from pe have t: "towerData ?ok 0 \<in> set (processExcelData [?ok])" by simp
  from inv[THEN conjunct1, rule_format, OF t] lt lg
  have e: "spec_geo_invariant (Fin (- 6.25)) (Fin 107.5)" by simp
  from a b c d e show ?thesis by blast
qed

end
